theory Spec2Isabelle
  imports Complex_Main
begin

section \<open>Conventions of the embedding\<close>

text \<open>
  The program is TypeScript. Its \<open>number\<close> values are modelled in exact arithmetic:
  prices, fees, investments, volumes and ROI percentages are \<^typ>\<open>real\<close>, contract counts
  produced by \<open>Math.floor\<close> are \<^typ>\<open>int\<close>. Rounding of IEEE doubles is outside the model.
  Where the source divides by a quantity that can be zero, the model says so explicitly
  instead of using HOL's \<open>x / 0 = 0\<close>.

  Strings are \<^typ>\<open>string\<close>, read as ASCII text. \<open>toLowerCase\<close> maps the letters A to Z
  to a to z and leaves every other character alone.
\<close>

subsection \<open>Strings\<close>

definition lower_char :: "char \<Rightarrow> char" where
  "lower_char c =
     (case map_of (zip ''ABCDEFGHIJKLMNOPQRSTUVWXYZ'' ''abcdefghijklmnopqrstuvwxyz'') c of
        Some d \<Rightarrow> d
      | None \<Rightarrow> c)"

definition toLowerCase :: "string \<Rightarrow> string" where
  "toLowerCase s = map lower_char s"

text \<open>\<open>s.includes(t)\<close>: \<open>t\<close> occurs in \<open>s\<close> as a contiguous substring.\<close>

fun starts_with :: "string \<Rightarrow> string \<Rightarrow> bool" where
  "starts_with s [] = True"
| "starts_with [] (c # t) = False"
| "starts_with (d # s) (c # t) = (d = c \<and> starts_with s t)"

fun str_includes :: "string \<Rightarrow> string \<Rightarrow> bool" where
  "str_includes [] t = (t = [])"
| "str_includes (d # s) t = (starts_with (d # s) t \<or> str_includes s t)"

section \<open>Fee model (client)\<close>

datatype order_mode = Maker | Taker

text \<open>\<open>calculatePlatformFee\<close> of \<open>client/src/pages/sentinel.tsx\<close>.\<close>

definition sentinel_calculatePlatformFee :: "string \<Rightarrow> real \<Rightarrow> real \<Rightarrow> order_mode \<Rightarrow> real" where
  "sentinel_calculatePlatformFee platform price contracts mode =
     (let platformLower = toLowerCase platform in
      if platformLower = ''kalshi'' then
        (if mode = Maker then 0 else 0.07 * price * (1 - price) * contracts)
      else if platformLower = ''polymarket'' then (price * contracts) * 0.0001
      else if platformLower = ''predictit'' then (1.0 - price) * contracts * 0.10
      else if platformLower = ''ibkr'' \<or> platformLower = ''ibkr forecast'' then contracts * 0.01
      else 0)"

text \<open>\<open>calculatePlatformFee\<close> of \<open>client/src/pages/arbitrage-calculator.tsx\<close>.\<close>

definition calculator_calculatePlatformFee :: "string \<Rightarrow> real \<Rightarrow> real \<Rightarrow> order_mode \<Rightarrow> real" where
  "calculator_calculatePlatformFee platform price contracts mode =
     (let platformLower = toLowerCase platform in
      if platformLower = ''kalshi'' then
        (if mode = Maker then 0 else 0.07 * price * (1 - price) * contracts)
      else if platformLower = ''polymarket'' then 0
      else if platformLower = ''predictit'' then (1.0 - price) * contracts * 0.10
      else if str_includes platformLower ''ibkr'' \<or> str_includes platformLower ''forecastex'' then 0.01 * contracts
      else 0)"

section \<open>ROI calculator (client, sentinel.tsx)\<close>

text \<open>
  The \<open>while (maxContracts > 0) { ... if (totalCost <= investment) break; maxContracts--; }\<close>
  loop of \<open>calculateScenarioRoi\<close>, started at \<open>maxContracts\<close>; the value returned is the
  value of the variable when the loop is left. \<open>calculateBestRoi\<close> repeats the same loop
  on its variable \<open>contracts\<close>.
\<close>

function contractsLoop ::
  "string \<Rightarrow> real \<Rightarrow> string \<Rightarrow> real \<Rightarrow> real \<Rightarrow> order_mode \<Rightarrow> int \<Rightarrow> int" where
  "contractsLoop platformA priceA platformB priceB investment mode maxContracts =
     (if maxContracts > 0 then
        (let feeA = sentinel_calculatePlatformFee platformA priceA (of_int maxContracts) mode;
             feeB = sentinel_calculatePlatformFee platformB priceB (of_int maxContracts) mode;
             totalCost = ((priceA + priceB) * of_int maxContracts) + feeA + feeB
         in if totalCost \<le> investment then maxContracts
            else contractsLoop platformA priceA platformB priceB investment mode (maxContracts - 1))
      else maxContracts)"
  by pat_completeness auto
termination
  by (relation "measure (\<lambda>(pA, a, pB, b, inv, m, n). nat n)") auto

declare contractsLoop.simps [simp del]

text \<open>
  \<open>calculateScenarioRoi\<close>. The result is \<open>None\<close> where the source divides by zero:
  with \<open>baseCost = 0\<close> and a positive investment \<open>investment / baseCost\<close> is \<open>Infinity\<close>,
  \<open>baseCost * maxContracts\<close> is \<open>NaN\<close>, the test \<open>totalCost <= investment\<close> is never true
  and \<open>Infinity - 1\<close> is \<open>Infinity\<close>, so the loop does not end; with \<open>totalInvested = 0\<close>
  the quotient returned is not a finite number.
\<close>

definition calculateScenarioRoi ::
  "string \<Rightarrow> real \<Rightarrow> string \<Rightarrow> real \<Rightarrow> real \<Rightarrow> order_mode \<Rightarrow> real option" where
  "calculateScenarioRoi platformA priceA platformB priceB investment mode =
     (let baseCost = priceA + priceB in
      if baseCost \<ge> 1.0 then Some 0.0
      else if investment \<le> 0 then Some 0
      else if baseCost = 0 then None
      else
        let maxContracts =
              contractsLoop platformA priceA platformB priceB investment mode \<lfloor>investment / baseCost\<rfloor>
        in if maxContracts \<le> 0 then Some 0
           else
             let feeA = sentinel_calculatePlatformFee platformA priceA (of_int maxContracts) mode;
                 feeB = sentinel_calculatePlatformFee platformB priceB (of_int maxContracts) mode;
                 totalInvested = (baseCost * of_int maxContracts) + feeA + feeB;
                 payout = of_int maxContracts;
                 netProfit = payout - totalInvested
             in if totalInvested = 0 then None
                else Some ((netProfit / totalInvested) * 100))"

record BestRoi =
  best_roi :: real
  best_scenario :: nat
  best_feeA :: real
  best_feeB :: real

text \<open>
  \<open>calculateBestRoi\<close>. \<open>None\<close> again stands for a division by zero in the source: in one of
  the two scenario calls, or in \<open>Math.floor(investment / baseCost)\<close> of the fee display.
\<close>

definition calculateBestRoi ::
  "string \<Rightarrow> real \<Rightarrow> string \<Rightarrow> real \<Rightarrow> real \<Rightarrow> order_mode \<Rightarrow> BestRoi option" where
  "calculateBestRoi platformA priceAYes platformB priceBYes investment mode =
     (case (calculateScenarioRoi platformA priceAYes platformB (1 - priceBYes) investment mode,
            calculateScenarioRoi platformA (1 - priceAYes) platformB priceBYes investment mode) of
        (Some roi1, Some roi2) \<Rightarrow>
          (let bestScenario = (if roi1 \<ge> roi2 then 1 else 2 :: nat);
               bestPriceA = (if bestScenario = 1 then priceAYes else 1 - priceAYes);
               bestPriceB = (if bestScenario = 1 then 1 - priceBYes else priceBYes);
               baseCost = bestPriceA + bestPriceB
           in if baseCost = 0 then None
              else
                let contracts =
                      contractsLoop platformA bestPriceA platformB bestPriceB investment mode
                        (if baseCost < 1 then \<lfloor>investment / baseCost\<rfloor> else 0)
                in Some \<lparr> best_roi = max roi1 roi2,
                          best_scenario = bestScenario,
                          best_feeA = sentinel_calculatePlatformFee platformA bestPriceA (of_int contracts) mode,
                          best_feeB = sentinel_calculatePlatformFee platformB bestPriceB (of_int contracts) mode \<rparr>)
      | _ \<Rightarrow> None)"

text \<open>
  The computation the specification calls the gross ROI: \<open>calculateScenarioRoi\<close> with both
  fees identically zero. Without fees the loop test
  \<open>baseCost * maxContracts <= investment\<close> holds at the first positive \<open>maxContracts\<close>.
\<close>

definition grossScenarioRoi :: "real \<Rightarrow> real \<Rightarrow> real \<Rightarrow> real option" where
  "grossScenarioRoi priceA priceB investment =
     (let baseCost = priceA + priceB in
      if baseCost \<ge> 1 then Some 0
      else if investment \<le> 0 then Some 0
      else if baseCost = 0 then None
      else
        let maxContracts = \<lfloor>investment / baseCost\<rfloor>
        in if maxContracts \<le> 0 then Some 0
           else
             let totalInvested = baseCost * of_int maxContracts;
                 netProfit = of_int maxContracts - totalInvested
             in Some ((netProfit / totalInvested) * 100))"

text \<open>Feasibility of a contract count under the fee model of \<open>sentinel.tsx\<close>.\<close>

definition affordable ::
  "string \<Rightarrow> real \<Rightarrow> string \<Rightarrow> real \<Rightarrow> real \<Rightarrow> order_mode \<Rightarrow> int \<Rightarrow> bool" where
  "affordable platformA priceA platformB priceB investment mode n =
     (of_int n * (priceA + priceB)
        + sentinel_calculatePlatformFee platformA priceA (of_int n) mode
        + sentinel_calculatePlatformFee platformB priceB (of_int n) mode \<le> investment)"

section \<open>Regular expressions (server, market-api.ts)\<close>

text \<open>
  The regular expressions of \<open>server/market-api.ts\<close> use literals, alternation, sequence,
  optional parts, the classes \<open>.\<close>, \<open>\d\<close>, \<open>\s\<close>, \<open>[^\w\s]\<close> and small character sets, the
  repetitions \<open>*\<close> and \<open>+\<close> on a class, and the word boundary \<open>\b\<close>. A matcher state
  (cursor) is the character just before the current position, if any, and the rest of the
  subject. \<open>rx_run\<close> lists the cursors at which a match starting at the given cursor can
  end, in the order in which a backtracking matcher finds them (greedy repetition, left
  alternative first), so the head of the list is the match JavaScript reports.
  Every pattern of the file either carries the flag \<open>i\<close> or is applied to a lower-cased
  subject, and their literals are lower-case; literals are therefore compared up to case.
\<close>

definition is_word_char :: "char \<Rightarrow> bool" where
  "is_word_char c = (c \<in> set ''abcdefghijklmnopqrstuvwxyzABCDEFGHIJKLMNOPQRSTUVWXYZ0123456789_'')"

definition is_space_char :: "char \<Rightarrow> bool" where
  "is_space_char c = (c \<in> set [CHR '' '', CHR 0x09, CHR 0x0A, CHR 0x0B, CHR 0x0C, CHR 0x0D])"

datatype cclass = AnyChar | Digit | Space | NotWordSpace | OneOf string

fun in_class :: "cclass \<Rightarrow> char \<Rightarrow> bool" where
  "in_class AnyChar c = (c \<noteq> CHR 0x0A \<and> c \<noteq> CHR 0x0D)"
| "in_class Digit c = (c \<in> set ''0123456789'')"
| "in_class Space c = is_space_char c"
| "in_class NotWordSpace c = (\<not> is_word_char c \<and> \<not> is_space_char c)"
| "in_class (OneOf cs) c = (c \<in> set cs)"

datatype rx = Lit string | Cls cclass | Star cclass | Plus cclass | Opt rx
  | Seq rx rx | Alt rx rx | WordB

type_synonym cursor = "char option \<times> string"

fun lit_run :: "string \<Rightarrow> cursor \<Rightarrow> cursor option" where
  "lit_run [] cur = Some cur"
| "lit_run (c # w) (p, []) = None"
| "lit_run (c # w) (p, x # xs) =
     (if lower_char x = lower_char c then lit_run w (Some x, xs) else None)"

text \<open>The cursors after one or more characters of the class, the longest run first.\<close>

fun class_runs :: "cclass \<Rightarrow> cursor \<Rightarrow> cursor list" where
  "class_runs k (p, []) = []"
| "class_runs k (p, x # xs) =
     (if in_class k x then class_runs k (Some x, xs) @ [(Some x, xs)] else [])"

fun at_boundary :: "cursor \<Rightarrow> bool" where
  "at_boundary (p, s) =
     ((case p of None \<Rightarrow> False | Some c \<Rightarrow> is_word_char c) \<noteq>
      (case s of [] \<Rightarrow> False | x # xs \<Rightarrow> is_word_char x))"

fun rx_run :: "rx \<Rightarrow> cursor \<Rightarrow> cursor list" where
  "rx_run (Lit w) cur = (case lit_run w cur of None \<Rightarrow> [] | Some c \<Rightarrow> [c])"
| "rx_run (Cls k) (p, s) =
     (case s of [] \<Rightarrow> [] | x # xs \<Rightarrow> if in_class k x then [(Some x, xs)] else [])"
| "rx_run (Star k) cur = class_runs k cur @ [cur]"
| "rx_run (Plus k) cur = class_runs k cur"
| "rx_run (Opt r) cur = rx_run r cur @ [cur]"
| "rx_run (Seq r1 r2) cur = concat (map (rx_run r2) (rx_run r1 cur))"
| "rx_run (Alt r1 r2) cur = rx_run r1 cur @ rx_run r2 cur"
| "rx_run WordB cur = (if at_boundary cur then [cur] else [])"

text \<open>\<open>r.test(s)\<close> for a pattern without the flag \<open>g\<close>: some position of \<open>s\<close> starts a match.\<close>

fun rx_test_from :: "rx \<Rightarrow> char option \<Rightarrow> string \<Rightarrow> bool" where
  "rx_test_from r p [] = (rx_run r (p, []) \<noteq> [])"
| "rx_test_from r p (x # xs) =
     (if rx_run r (p, x # xs) = [] then rx_test_from r (Some x) xs else True)"

definition rx_test :: "rx \<Rightarrow> string \<Rightarrow> bool" where
  "rx_test r s = rx_test_from r None s"

text \<open>
  \<open>s.match(r)\<close> for a pattern with the flag \<open>g\<close>: the matched substrings from left to
  right, the search resuming where the last match ended (one character further after an
  empty match). The source writes \<open>s.match(r) || []\<close>, so no match is the empty list.
\<close>

fun rx_match_all_from :: "rx \<Rightarrow> char option \<Rightarrow> string \<Rightarrow> string list" where
  "rx_match_all_from r p [] = (case rx_run r (p, []) of [] \<Rightarrow> [] | c # cs \<Rightarrow> [[]])"
| "rx_match_all_from r p (x # xs) =
     (case rx_run r (p, x # xs) of
        [] \<Rightarrow> rx_match_all_from r (Some x) xs
      | (q, rest) # cs \<Rightarrow>
          if length rest < Suc (length xs)
          then take (Suc (length xs) - length rest) (x # xs) # rx_match_all_from r q rest
          else [] # rx_match_all_from r (Some x) xs)"

definition rx_match_all :: "rx \<Rightarrow> string \<Rightarrow> string list" where
  "rx_match_all r s = rx_match_all_from r None s"

text \<open>\<open>s.replace(r, rep)\<close> for a pattern with the flag \<open>g\<close> and a constant replacement.\<close>

fun rx_replace_from :: "rx \<Rightarrow> string \<Rightarrow> char option \<Rightarrow> string \<Rightarrow> string" where
  "rx_replace_from r rep p [] = (case rx_run r (p, []) of [] \<Rightarrow> [] | c # cs \<Rightarrow> rep)"
| "rx_replace_from r rep p (x # xs) =
     (case rx_run r (p, x # xs) of
        [] \<Rightarrow> x # rx_replace_from r rep (Some x) xs
      | (q, rest) # cs \<Rightarrow>
          if length rest < Suc (length xs)
          then rep @ rx_replace_from r rep q rest
          else rep @ x # rx_replace_from r rep (Some x) xs)"

definition rx_replace :: "rx \<Rightarrow> string \<Rightarrow> string \<Rightarrow> string" where
  "rx_replace r rep s = rx_replace_from r rep None s"

text \<open>Alternation of literals, \<open>a|b|c\<close>, and a literal between word boundaries, \<open>\ba\b\<close>.\<close>

fun alts :: "string list \<Rightarrow> rx" where
  "alts [] = Lit []"
| "alts [w] = Lit w"
| "alts (w # ws) = Alt (Lit w) (alts ws)"

definition whole_word :: "rx \<Rightarrow> rx" where
  "whole_word r = Seq WordB (Seq r WordB)"

subsection \<open>Sets in insertion order\<close>

text \<open>
  A JavaScript \<open>Set\<close> iterates in insertion order; it is modelled as a list without
  duplicates. \<open>set_add\<close> is \<open>Set.prototype.add\<close>, \<open>new_Set\<close> is \<open>new Set(array)\<close>.
\<close>

definition set_add :: "'a list \<Rightarrow> 'a \<Rightarrow> 'a list" where
  "set_add xs x = (if x \<in> set xs then xs else xs @ [x])"

definition new_Set :: "'a list \<Rightarrow> 'a list" where
  "new_Set xs = fold (\<lambda>x acc. set_add acc x) xs []"

section \<open>Entity extraction (server, market-api.ts)\<close>

record EntityBag =
  names :: "string list"
  numbers :: "string list"
  years :: "string list"
  party :: "string option"
  states :: "string list"
  timeFrames :: "string list"

text \<open>\<open>/\b(202[4-9]|203[0-9])\b/g\<close>\<close>

definition year_rx :: rx where
  "year_rx = whole_word (Alt (Seq (Lit ''202'') (Cls (OneOf ''456789'')))
                             (Seq (Lit ''203'') (Cls (OneOf ''0123456789''))))"

text \<open>\<open>/\b\d+(?:\.\d+)?%?k?\b/g\<close>\<close>

definition number_rx :: rx where
  "number_rx = Seq WordB (Seq (Plus Digit) (Seq (Opt (Seq (Lit ''.'') (Plus Digit)))
                 (Seq (Opt (Lit ''%'')) (Seq (Opt (Lit ''k'')) WordB))))"

text \<open>\<open>/republican|gop|rnc|r\b/i\<close> and \<open>/democrat|dnc|dem\b|d\b/i\<close>\<close>

definition republican_rx :: rx where
  "republican_rx = Alt (Lit ''republican'') (Alt (Lit ''gop'') (Alt (Lit ''rnc'') (Seq (Lit ''r'') WordB)))"

definition democrat_rx :: rx where
  "democrat_rx = Alt (Lit ''democrat'') (Alt (Lit ''dnc'')
                   (Alt (Seq (Lit ''dem'') WordB) (Seq (Lit ''d'') WordB)))"

definition stateMap :: "(string \<times> string list) list" where
  "stateMap =
     [(''alabama'', [''alabama'', ''al'']),
      (''alaska'', [''alaska'', ''ak'']),
      (''arizona'', [''arizona'', ''az'']),
      (''arkansas'', [''arkansas'', ''ar'']),
      (''california'', [''california'', ''ca'', ''calif'']),
      (''colorado'', [''colorado'', ''co'', ''colo'']),
      (''connecticut'', [''connecticut'', ''ct'', ''conn'']),
      (''delaware'', [''delaware'', ''de'', ''del'']),
      (''florida'', [''florida'', ''fl'', ''fla'']),
      (''georgia'', [''georgia'', ''ga'']),
      (''hawaii'', [''hawaii'', ''hi'']),
      (''idaho'', [''idaho'', ''id'']),
      (''illinois'', [''illinois'', ''il'', ''ill'']),
      (''indiana'', [''indiana'', ''in'', ''ind'']),
      (''iowa'', [''iowa'', ''ia'']),
      (''kansas'', [''kansas'', ''ks'', ''kan'']),
      (''kentucky'', [''kentucky'', ''ky'']),
      (''louisiana'', [''louisiana'', ''la'']),
      (''maine'', [''maine'', ''me'']),
      (''maryland'', [''maryland'', ''md'']),
      (''massachusetts'', [''massachusetts'', ''ma'', ''mass'']),
      (''michigan'', [''michigan'', ''mi'', ''mich'']),
      (''minnesota'', [''minnesota'', ''mn'', ''minn'']),
      (''mississippi'', [''mississippi'', ''ms'', ''miss'']),
      (''missouri'', [''missouri'', ''mo'']),
      (''montana'', [''montana'', ''mt'', ''mont'']),
      (''nebraska'', [''nebraska'', ''ne'', ''neb'']),
      (''nevada'', [''nevada'', ''nv'', ''nev'']),
      (''new hampshire'', [''new hampshire'', ''nh'', ''n h'']),
      (''new jersey'', [''new jersey'', ''nj'', ''n j'']),
      (''new mexico'', [''new mexico'', ''nm'', ''n m'']),
      (''new york'', [''new york'', ''ny'', ''n y'']),
      (''north carolina'', [''north carolina'', ''nc'', ''n c'']),
      (''north dakota'', [''north dakota'', ''nd'', ''n d'']),
      (''ohio'', [''ohio'', ''oh'']),
      (''oklahoma'', [''oklahoma'', ''ok'', ''okla'']),
      (''oregon'', [''oregon'', ''or'', ''ore'']),
      (''pennsylvania'', [''pennsylvania'', ''pa'', ''penn'']),
      (''rhode island'', [''rhode island'', ''ri'', ''r i'']),
      (''south carolina'', [''south carolina'', ''sc'', ''s c'']),
      (''south dakota'', [''south dakota'', ''sd'', ''s d'']),
      (''tennessee'', [''tennessee'', ''tn'', ''tenn'']),
      (''texas'', [''texas'', ''tx'', ''tex'']),
      (''utah'', [''utah'', ''ut'']),
      (''vermont'', [''vermont'', ''vt'']),
      (''virginia'', [''virginia'', ''va'']),
      (''washington'', [''washington'', ''wa'', ''wash'']),
      (''west virginia'', [''west virginia'', ''wv'', ''w va'']),
      (''wisconsin'', [''wisconsin'', ''wi'', ''wis'']),
      (''wyoming'', [''wyoming'', ''wy'', ''wyo''])]"

text \<open>
  \<open>/\b(q[1-4]|quarter\s*[1-4]|first\s*quarter|second\s*quarter|third\s*quarter|fourth\s*quarter)\b/gi\<close>
\<close>

definition quarter_rx :: rx where
  "quarter_rx = whole_word
     (Alt (Seq (Lit ''q'') (Cls (OneOf ''1234'')))
     (Alt (Seq (Lit ''quarter'') (Seq (Star Space) (Cls (OneOf ''1234''))))
     (Alt (Seq (Lit ''first'') (Seq (Star Space) (Lit ''quarter'')))
     (Alt (Seq (Lit ''second'') (Seq (Star Space) (Lit ''quarter'')))
     (Alt (Seq (Lit ''third'') (Seq (Star Space) (Lit ''quarter'')))
          (Seq (Lit ''fourth'') (Seq (Star Space) (Lit ''quarter''))))))))"

text \<open>
  \<open>/\b(january|february|march|april|may|june|july|august|september|october|november|december|jan|feb|mar|apr|jun|jul|aug|sep|sept|oct|nov|dec)\b/gi\<close>
\<close>

definition month_rx :: rx where
  "month_rx = whole_word (alts
     [''january'', ''february'', ''march'', ''april'', ''may'', ''june'', ''july'', ''august'',
      ''september'', ''october'', ''november'', ''december'', ''jan'', ''feb'', ''mar'', ''apr'',
      ''jun'', ''jul'', ''aug'', ''sep'', ''sept'', ''oct'', ''nov'', ''dec''])"

definition monthMap :: "(string \<times> string) list" where
  "monthMap =
     [(''january'', ''jan''), (''february'', ''feb''), (''march'', ''mar''), (''april'', ''apr''),
      (''may'', ''may''), (''june'', ''jun''), (''july'', ''jul''), (''august'', ''aug''),
      (''september'', ''sep''), (''sept'', ''sep''), (''october'', ''oct''), (''november'', ''nov''),
      (''december'', ''dec'')]"

definition nameMap :: "(string \<times> string list) list" where
  "nameMap =
     [(''trump'', [''trump'', ''donald trump'']),
      (''biden'', [''biden'', ''joe biden'']),
      (''harris'', [''harris'', ''kamala harris'', ''kamala'']),
      (''desantis'', [''desantis'', ''ron desantis'']),
      (''newsom'', [''newsom'', ''gavin newsom'']),
      (''musk'', [''musk'', ''elon musk'', ''elon'']),
      (''vance'', [''vance'', ''jd vance'']),
      (''pence'', [''pence'', ''mike pence'']),
      (''haley'', [''haley'', ''nikki haley'']),
      (''ramaswamy'', [''ramaswamy'', ''vivek ramaswamy'', ''vivek'']),
      (''cruz'', [''cruz'', ''ted cruz'']),
      (''rubio'', [''rubio'', ''marco rubio'']),
      (''warren'', [''warren'', ''elizabeth warren'']),
      (''sanders'', [''sanders'', ''bernie sanders'', ''bernie'']),
      (''buttigieg'', [''buttigieg'', ''pete buttigieg'', ''pete'']),
      (''ocasio-cortez'', [''ocasio-cortez'', ''aoc'', ''alexandria ocasio-cortez'']),
      (''bitcoin'', [''bitcoin'', ''btc'']),
      (''ethereum'', [''ethereum'', ''eth'']),
      (''chiefs'', [''chiefs'', ''kansas city chiefs'', ''kc chiefs'']),
      (''eagles'', [''eagles'', ''philadelphia eagles'']),
      (''bills'', [''bills'', ''buffalo bills'']),
      (''lions'', [''lions'', ''detroit lions'']),
      (''cowboys'', [''cowboys'', ''dallas cowboys'']),
      (''packers'', [''packers'', ''green bay packers'']),
      (''49ers'', [''49ers'', ''niners'', ''san francisco 49ers''])]"

text \<open>
  The loop over a table of canonical names with their variants: the canonical name is
  added when one of its variants occurs as a whole word
  (\<open>new RegExp(`\\b${variant}\\b`, 'i')\<close>; no variant of the two tables contains a
  character that the escaping in the source changes).
\<close>

definition canonical_hits :: "(string \<times> string list) list \<Rightarrow> string \<Rightarrow> string list" where
  "canonical_hits table normalized =
     fold (\<lambda>(canonical, variants) acc.
             if list_ex (\<lambda>variant. rx_test (whole_word (Lit variant)) normalized) variants
             then set_add acc canonical else acc)
          table []"

definition endsWith :: "string \<Rightarrow> char \<Rightarrow> bool" where
  "endsWith s c = (case rev s of [] \<Rightarrow> False | d # r \<Rightarrow> d = c)"

text \<open>
  \<open>extractEntities\<close>. Its first argument stands for the expression
  \<open>(parseFloat(num.slice(0, -1)) * 1000).toString()\<close>, a double product and its printing,
  applied to a number token without its final \<open>k\<close>; it is left open, so that what is
  proved holds whatever this expression returns.
\<close>

definition extractEntities :: "(string \<Rightarrow> string) \<Rightarrow> string \<Rightarrow> EntityBag" where
  "extractEntities times1000 title =
     (let normalized = toLowerCase title;
          yearMatches = rx_match_all year_rx normalized;
          numMatches = rx_match_all number_rx normalized;
          quarterMatches = rx_match_all quarter_rx normalized;
          monthMatches = rx_match_all month_rx normalized
      in \<lparr> names = canonical_hits nameMap normalized,
           numbers = fold (\<lambda>num acc.
                        if length num > 1
                        then (if endsWith num (CHR ''k'')
                              then set_add acc (times1000 (butlast num))
                              else set_add acc num)
                        else acc) numMatches [],
           years = new_Set yearMatches,
           party = (if rx_test republican_rx normalized then Some ''republican''
                    else if rx_test democrat_rx normalized then Some ''democrat''
                    else None),
           states = canonical_hits stateMap normalized,
           timeFrames =
             fold (\<lambda>m acc. let mLower = toLowerCase m in
                      set_add acc (case map_of monthMap mLower of Some v \<Rightarrow> v | None \<Rightarrow> mLower))
                  monthMatches
               (fold (\<lambda>q acc. set_add acc (filter (\<lambda>c. \<not> is_space_char c) (toLowerCase q)))
                     quarterMatches []) \<rparr>)"

section \<open>Title normalisation and tokens\<close>

definition trim :: "string \<Rightarrow> string" where
  "trim s = rev (dropWhile is_space_char (rev (dropWhile is_space_char s)))"

definition normalizeTitle :: "string \<Rightarrow> string" where
  "normalizeTitle title =
     trim
      (rx_replace (Plus Space) '' ''
      (rx_replace (Cls NotWordSpace) '' ''
      (rx_replace (Lit ''?'') []
      (rx_replace (alts [''united states'', ''u.s.'', ''usa'']) ''us''
      (rx_replace (Seq (Lit ''midterm election'') (Opt (Lit ''s''))) ''midterms''
      (rx_replace (alts [''democratic'', ''dem'', ''dnc'']) ''democratic''
      (rx_replace (alts [''republican'', ''gop'', ''rnc'']) ''republican''
      (rx_replace (alts [''december'', ''dec'']) ''dec''
      (rx_replace (alts [''november'', ''nov'']) ''nov''
      (rx_replace (alts [''october'', ''oct'']) ''oct''
      (rx_replace (alts [''september'', ''sept'', ''sep'']) ''sep''
      (rx_replace (alts [''august'', ''aug'']) ''aug''
      (rx_replace (alts [''july'', ''jul'']) ''jul''
      (rx_replace (alts [''june'', ''jun'']) ''jun''
      (rx_replace (Lit ''may'') ''may''
      (rx_replace (alts [''april'', ''apr'']) ''apr''
      (rx_replace (alts [''march'', ''mar'']) ''mar''
      (rx_replace (alts [''february'', ''feb'']) ''feb''
      (rx_replace (alts [''january'', ''jan'']) ''jan''
      (toLowerCase title))))))))))))))))))))"

text \<open>\<open>s.split(/\s+/)\<close>: the pieces between maximal runs of white space.\<close>

fun split_ws :: "string \<Rightarrow> string list" where
  "split_ws [] = [[]]"
| "split_ws (x # xs) =
     (if is_space_char x then
        (case xs of
           [] \<Rightarrow> [] # split_ws xs
         | y # ys \<Rightarrow> if is_space_char y then split_ws xs else [] # split_ws xs)
      else (case split_ws xs of [] \<Rightarrow> [[x]] | t # ts \<Rightarrow> (x # t) # ts))"

definition stopWords :: "string list" where
  "stopWords = [''will'', ''the'', ''a'', ''an'', ''be'', ''is'', ''are'', ''was'', ''were'', ''in'',
     ''on'', ''at'', ''to'', ''for'', ''of'', ''by'', ''with'', ''or'', ''and'', ''more'', ''than'',
     ''less'', ''yes'', ''no'', ''win'', ''who'', ''what'', ''when'', ''where'', ''how'']"

definition extractTokens :: "string \<Rightarrow> string list" where
  "extractTokens title =
     (let normalized = normalizeTitle title;
          words = filter (\<lambda>w. length w > 2 \<and> w \<notin> set stopWords) (split_ws normalized)
      in new_Set words)"

definition jaccardSimilarity :: "string list \<Rightarrow> string list \<Rightarrow> real" where
  "jaccardSimilarity setA setB =
     (let intersection = new_Set (filter (\<lambda>x. x \<in> set setB) setA);
          union = new_Set (setA @ setB)
      in if length union > 0 then real (length intersection) / real (length union) else 0)"

section \<open>Event patterns\<close>

definition SPECIFIC_EVENT_PATTERNS :: "(rx list \<times> string) list" where
  "SPECIFIC_EVENT_PATTERNS =
     [([Lit ''recession'', Lit ''2025''], ''recession-2025''),
      ([Lit ''recession'', Lit ''2026''], ''recession-2026''),
      ([alts [''fed'', ''federal reserve''], Lit ''rate'', Lit ''cut''], ''fed-rate-cut''),
      ([alts [''fed'', ''federal reserve''], Lit ''rate'', alts [''hike'', ''raise'']], ''fed-rate-hike''),
      ([alts [''bitcoin'', ''btc''],
        Alt (Seq (Lit ''100'') (Seq (Star AnyChar) (Lit ''k'')))
            (Seq (Lit ''100'') (Seq (Opt (Lit '','')) (Lit ''000'')))], ''bitcoin-100k''),
      ([alts [''bitcoin'', ''btc''],
        Alt (Seq (Lit ''150'') (Seq (Star AnyChar) (Lit ''k'')))
            (Seq (Lit ''150'') (Seq (Opt (Lit '','')) (Lit ''000'')))], ''bitcoin-150k''),
      ([alts [''bitcoin'', ''btc''],
        Alt (Seq (Lit ''200'') (Seq (Star AnyChar) (Lit ''k'')))
            (Seq (Lit ''200'') (Seq (Opt (Lit '','')) (Lit ''000'')))], ''bitcoin-200k''),
      ([Lit ''trump'', Lit ''tariff'', Lit ''china''], ''trump-tariffs-china''),
      ([Lit ''trump'', Lit ''deport'', Lit ''million''], ''trump-deportation-million''),
      ([alts [''doge'', ''musk''],
        Alt (Seq (Lit ''federal'') (Seq (Star AnyChar) (Lit ''employee'')))
            (Seq (Lit ''employee'') (Seq (Star AnyChar) (Lit ''federal'')))], ''doge-employees''),
      ([Lit ''super bowl'', Lit ''chiefs''], ''superbowl-chiefs''),
      ([Lit ''super bowl'', Lit ''eagles''], ''superbowl-eagles''),
      ([Lit ''world cup'', alts [''usa'', ''united states''], Lit ''2026''], ''worldcup-usa-2026''),
      ([alts [''s&p'', ''sp500''], Lit ''6000''], ''sp500-6000''),
      ([alts [''s&p'', ''sp500''], Lit ''7000''], ''sp500-7000'')]"

definition extractEvents :: "string \<Rightarrow> string list" where
  "extractEvents title =
     map snd (filter (\<lambda>(patterns, event). list_all (\<lambda>p. rx_test p title) patterns)
                SPECIFIC_EVENT_PATTERNS)"

section \<open>Similarity scorer\<close>

datatype platform_name = Kalshi | Polymarket | PredictIt

record StandardizedMarket =
  market_id :: string
  platform :: platform_name
  title :: string
  category :: "string option"
  yesPrice :: real
  noPrice :: real
  volume :: real
  lastUpdated :: string
  isBinary :: "bool option"
  outcomes :: "(string \<times> string) option"
  marketUrl :: "string option"

record SimilarityResult =
  score :: int
  reason :: string

definition join :: "string \<Rightarrow> string list \<Rightarrow> string" where
  "join sep xs = (case xs of [] \<Rightarrow> [] | x # r \<Rightarrow> fold (\<lambda>y acc. acc @ sep @ y) r x)"

text \<open>\<open>Math.round\<close>: the nearest integer, a tie going up.\<close>

definition Math_round :: "real \<Rightarrow> int" where
  "Math_round x = \<lfloor>x + 1 / 2\<rfloor>"

text \<open>
  \<open>calculateSimilarity\<close>. The two nested loops over \<open>eventsA\<close> and \<open>eventsB\<close> return at
  the first event of \<open>eventsA\<close> that is also in \<open>eventsB\<close>.
\<close>

definition calculateSimilarity ::
  "(string \<Rightarrow> string) \<Rightarrow> StandardizedMarket \<Rightarrow> StandardizedMarket \<Rightarrow> SimilarityResult" where
  "calculateSimilarity times1000 a b =
     (let eventsA = extractEvents (title a);
          eventsB = extractEvents (title b)
      in case find (\<lambda>ea. ea \<in> set eventsB) eventsA of
           Some ea \<Rightarrow> \<lparr> score = 95, reason = ea \<rparr>
         | None \<Rightarrow>
      let entitiesA = extractEntities times1000 (title a);
          entitiesB = extractEntities times1000 (title b)
      in if party entitiesA \<noteq> None \<and> party entitiesB \<noteq> None \<and> party entitiesA \<noteq> party entitiesB
         then \<lparr> score = 0, reason = [] \<rparr>
         else
      let statesA = states entitiesA;
          statesB = states entitiesB
      in if length statesA > 0 \<and> length statesB > 0 \<and> \<not> list_ex (\<lambda>s. s \<in> set statesB) statesA
         then \<lparr> score = 0, reason = [] \<rparr>
         else
      let timeFramesA = timeFrames entitiesA;
          timeFramesB = timeFrames entitiesB
      in if length timeFramesA > 0 \<and> length timeFramesB > 0
              \<and> \<not> list_ex (\<lambda>t. t \<in> set timeFramesB) timeFramesA
         then \<lparr> score = 0, reason = [] \<rparr>
         else
      let tokensA = extractTokens (title a);
          tokensB = extractTokens (title b);
          jaccard = jaccardSimilarity tokensA tokensB
      in if jaccard \<ge> 0.25 then
           (let yearsA = years entitiesA;
                yearsB = years entitiesB
            in if length yearsA > 0 \<and> length yearsB > 0 \<and> \<not> list_ex (\<lambda>y. y \<in> set yearsB) yearsA
               then \<lparr> score = 0, reason = [] \<rparr>
               else
            let numbersA = numbers entitiesA;
                numbersB = numbers entitiesB
            in if length numbersA > 0 \<and> length numbersB > 0
                    \<and> \<not> list_ex (\<lambda>n. n \<in> set numbersB) numbersA
               then \<lparr> score = 0, reason = [] \<rparr>
               else
            let namesA = names entitiesA;
                namesB = names entitiesB;
                nameOverlap = filter (\<lambda>n. n \<in> set namesB) namesA;
                score0 = Math_round (jaccard * 100);
                score1 = (if length nameOverlap > 0
                          then min 100 (score0 + int (length nameOverlap) * 15) else score0);
                score2 = (if length timeFramesA > 0 \<and> length timeFramesB > 0
                               \<and> length (filter (\<lambda>t. t \<in> set timeFramesB) timeFramesA) > 0
                          then min 100 (score1 + 10) else score1)
            in if length nameOverlap = 0 \<and> score2 < 60
               then \<lparr> score = 0, reason = [] \<rparr>
               else
            let commonTokens = take 4 (filter (\<lambda>t. t \<in> set tokensB) tokensA);
                reason = (if length nameOverlap > 0
                          then ''match: '' @ join '', '' nameOverlap
                          else ''similar: '' @ join '', '' commonTokens)
            in \<lparr> score = score2, reason = reason \<rparr>)
         else \<lparr> score = 0, reason = [] \<rparr>)"

section \<open>Opportunity search\<close>

text \<open>
  The \<open>roi\<close> of an opportunity is \<open>(profit / cost) * 100\<close> with \<open>cost < 1\<close> and
  \<open>profit = 1 - cost\<close>, so \<open>profit\<close> is positive and a cost of zero makes the quotient
  \<open>Infinity\<close> in the source; the opportunity is pushed all the same, since
  \<open>Infinity >= minRoi\<close>. The field therefore ranges over the reals and \<open>Infinity\<close>.
\<close>

datatype jsnum = Num real | PlusInfinity

fun js_ge :: "jsnum \<Rightarrow> real \<Rightarrow> bool" where
  "js_ge (Num x) y = (x \<ge> y)"
| "js_ge PlusInfinity y = True"

definition roi_percent :: "real \<Rightarrow> real \<Rightarrow> jsnum" where
  "roi_percent profit cost = (if cost = 0 then PlusInfinity else Num ((profit / cost) * 100))"

record ArbitrageOpportunity =
  marketA :: StandardizedMarket
  marketB :: StandardizedMarket
  combinedYesCost :: real
  potentialProfit :: real
  roi :: jsnum
  matchScore :: int
  matchReason :: string

definition minSimilarity :: int where
  "minSimilarity = 60"

definition MAX_BUCKET_SIZE :: nat where
  "MAX_BUCKET_SIZE = 500"

definition topics :: "string list" where
  "topics = [''senate'', ''house'', ''president'', ''governor'', ''bitcoin'', ''btc'', ''ethereum'',
     ''recession'', ''fed'', ''super bowl'', ''nba'', ''nfl'', ''world cup'', ''olympics'']"

definition index_years :: "string list" where
  "index_years = [''2025'', ''2026'', ''2027'', ''2028'']"

definition entityPatterns :: "(string \<times> rx) list" where
  "entityPatterns =
     [(''trump'', whole_word (Lit ''trump'')),
      (''biden'', whole_word (Lit ''biden'')),
      (''harris'', whole_word (Lit ''harris'')),
      (''desantis'', whole_word (Lit ''desantis'')),
      (''newsom'', whole_word (Lit ''newsom'')),
      (''musk'', whole_word (Lit ''musk'')),
      (''vance'', whole_word (Lit ''vance'')),
      (''buttigieg'', whole_word (Lit ''buttigieg'')),
      (''ocasio-cortez'', whole_word (Seq (Lit ''ocasio'') (Seq (Opt (Cls AnyChar)) (Lit ''cortez''))))]"

text \<open>
  \<open>keywordIndex\<close>, a \<open>Map\<close> from keyword to the listings pushed under it, as an
  association list in insertion order. \<open>index_push\<close> is
  \<open>if (!keywordIndex.has(key)) keywordIndex.set(key, []); keywordIndex.get(key)!.push(m)\<close>.
\<close>

type_synonym keyword_index = "(string \<times> StandardizedMarket list) list"

definition index_push :: "string \<Rightarrow> StandardizedMarket \<Rightarrow> keyword_index \<Rightarrow> keyword_index" where
  "index_push key m idx =
     (if map_of idx key = None then idx @ [(key, [m])]
      else map (\<lambda>(k, ms). if k = key then (k, ms @ [m]) else (k, ms)) idx)"

text \<open>The body of the loop \<open>for (const m of markets)\<close> that fills the index.\<close>

definition index_market :: "StandardizedMarket \<Rightarrow> keyword_index \<Rightarrow> keyword_index" where
  "index_market m idx =
     (let lowered = toLowerCase (title m);
          idx1 = fold (\<lambda>topic acc.
                    if str_includes lowered topic
                    then fold (\<lambda>year acc2.
                           if str_includes lowered year
                           then index_push (topic @ ''-'' @ year) m acc2 else acc2)
                         index_years acc
                    else acc) topics idx
      in fold (\<lambda>(name, pattern) acc.
                 if rx_test pattern lowered then index_push name m acc else acc)
              entityPatterns idx1)"

text \<open>Comparison of strings by character codes, as the default \<open>Array.prototype.sort\<close> does.\<close>

fun str_less :: "string \<Rightarrow> string \<Rightarrow> bool" where
  "str_less s [] = False"
| "str_less [] (y # ys) = True"
| "str_less (x # xs) (y # ys) =
     (if x = y then str_less xs ys else (of_char x :: nat) < of_char y)"

text \<open>\<open>[a.id, b.id].sort().join('-')\<close>\<close>

definition pairKey :: "StandardizedMarket \<Rightarrow> StandardizedMarket \<Rightarrow> string" where
  "pairKey a b =
     (if str_less (market_id b) (market_id a)
      then market_id b @ ''-'' @ market_id a
      else market_id a @ ''-'' @ market_id b)"

text \<open>
  The state of the search: the set \<open>compared\<close>, the array \<open>opportunities\<close>, and, as a record
  of what the run did, the list \<open>scored\<close> of the argument pairs of the calls of
  \<open>calculateSimilarity\<close>, in order. Nothing reads \<open>scored\<close>.
\<close>

record ScanState =
  compared :: "string list"
  scored :: "(StandardizedMarket \<times> StandardizedMarket) list"
  opportunities :: "ArbitrageOpportunity list"

definition push_opportunity :: "ArbitrageOpportunity \<Rightarrow> ScanState \<Rightarrow> ScanState" where
  "push_opportunity opp st = st\<lparr> opportunities := opportunities st @ [opp] \<rparr>"

text \<open>The body of the inner loop, for \<open>a = sortedMarkets[i]\<close> and \<open>b = sortedMarkets[j]\<close>.\<close>

definition compare_pair ::
  "(string \<Rightarrow> string) \<Rightarrow> real \<Rightarrow> StandardizedMarket \<times> StandardizedMarket \<Rightarrow> ScanState \<Rightarrow> ScanState" where
  "compare_pair times1000 minRoi ab st =
     (let a = fst ab; b = snd ab in
      if platform a = platform b then st
      else if pairKey a b \<in> set (compared st) then st
      else
        let st0 = st\<lparr> compared := set_add (compared st) (pairKey a b),
                      scored := scored st @ [(a, b)] \<rparr>;
            sim = calculateSimilarity times1000 a b
        in if score sim < minSimilarity then st0
           else
             let costYesANoB = yesPrice a + noPrice b;
                 st1 = (if costYesANoB < 1 \<and> js_ge (roi_percent (1 - costYesANoB) costYesANoB) minRoi
                        then push_opportunity
                               \<lparr> marketA = a, marketB = b, combinedYesCost = costYesANoB,
                                 potentialProfit = 1 - costYesANoB,
                                 roi = roi_percent (1 - costYesANoB) costYesANoB,
                                 matchScore = score sim, matchReason = reason sim \<rparr> st0
                        else st0);
                 costNoAYesB = noPrice a + yesPrice b
             in if costNoAYesB < 1 \<and> js_ge (roi_percent (1 - costNoAYesB) costNoAYesB) minRoi
                then push_opportunity
                       \<lparr> marketA = b, marketB = a, combinedYesCost = costNoAYesB,
                         potentialProfit = 1 - costNoAYesB,
                         roi = roi_percent (1 - costNoAYesB) costNoAYesB,
                         matchScore = score sim, matchReason = reason sim \<rparr> st1
                else st1)"

text \<open>The index pairs \<open>i < j\<close> in the order of the two nested \<open>for\<close> loops.\<close>

fun index_pairs :: "'a list \<Rightarrow> ('a \<times> 'a) list" where
  "index_pairs [] = []"
| "index_pairs (x # xs) = map (Pair x) xs @ index_pairs xs"

text \<open>
  The body of the loop over the entries of \<open>keywordIndex\<close>. The comparator
  \<open>(b.volume || 0) - (a.volume || 0)\<close> orders by volume, largest first, and the sort is
  stable.
\<close>

definition scan_bucket ::
  "(string \<Rightarrow> string) \<Rightarrow> real \<Rightarrow> StandardizedMarket list \<Rightarrow> ScanState \<Rightarrow> ScanState" where
  "scan_bucket times1000 minRoi matchingMarkets st =
     (if length (new_Set (map platform matchingMarkets)) < 2 then st
      else
        let sortedMarkets = take MAX_BUCKET_SIZE (sort_key (\<lambda>m. - volume m) matchingMarkets)
        in fold (compare_pair times1000 minRoi) (index_pairs sortedMarkets) st)"

definition keywordIndex :: "StandardizedMarket list \<Rightarrow> keyword_index" where
  "keywordIndex markets = fold index_market markets []"

definition scan_markets ::
  "(string \<Rightarrow> string) \<Rightarrow> StandardizedMarket list \<Rightarrow> real \<Rightarrow> ScanState" where
  "scan_markets times1000 markets minRoi =
     fold (\<lambda>(keyword, matchingMarkets) st. scan_bucket times1000 minRoi matchingMarkets st)
          (keywordIndex markets)
          \<lparr> compared = [], scored = [], opportunities = [] \<rparr>"

text \<open>
  The final \<open>opportunities.sort(...)\<close>. Its comparator, \<open>b.roi - a.roi\<close> when the two ROI
  differ by more than 0.1 and \<open>b.matchScore - a.matchScore\<close> otherwise, is not transitive,
  and for such a comparator the language leaves the resulting order to the implementation.
  \<open>keeps_order a b\<close> says that the comparator applied to \<open>a\<close> and \<open>b\<close> is not positive;
  the model sorts by stable insertion. The result is a rearrangement of the array in every
  implementation, and nothing below depends on the order.
\<close>

definition keeps_order :: "ArbitrageOpportunity \<Rightarrow> ArbitrageOpportunity \<Rightarrow> bool" where
  "keeps_order a b =
     (case (roi a, roi b) of
        (Num x, Num y) \<Rightarrow> if \<bar>x - y\<bar> > 0.1 then y \<le> x else matchScore b \<le> matchScore a
      | (PlusInfinity, Num y) \<Rightarrow> True
      | (Num x, PlusInfinity) \<Rightarrow> False
      | (PlusInfinity, PlusInfinity) \<Rightarrow> matchScore b \<le> matchScore a)"

fun insert_opportunity :: "ArbitrageOpportunity \<Rightarrow> ArbitrageOpportunity list \<Rightarrow> ArbitrageOpportunity list" where
  "insert_opportunity x [] = [x]"
| "insert_opportunity x (y # ys) =
     (if keeps_order y x then y # insert_opportunity x ys else x # y # ys)"

definition sort_opportunities :: "ArbitrageOpportunity list \<Rightarrow> ArbitrageOpportunity list" where
  "sort_opportunities xs = fold insert_opportunity xs []"

text \<open>
  \<open>findArbitrageOpportunities\<close>. The table \<open>byPlatform\<close> that the source fills first is
  never read and is left out.
\<close>

definition findArbitrageOpportunities ::
  "(string \<Rightarrow> string) \<Rightarrow> StandardizedMarket list \<Rightarrow> real \<Rightarrow> ArbitrageOpportunity list" where
  "findArbitrageOpportunities times1000 markets minRoi =
     sort_opportunities (opportunities (scan_markets times1000 markets minRoi))"

section \<open>Auxiliary notions for stating the properties\<close>

text \<open>
  What the search records in an opportunity: it comes from a scored pair of listings of
  two different venues whose score reached the minimum, in one of the two orders, and its
  numbers are those of the scenario that buys YES on \<open>marketA\<close> and NO on \<open>marketB\<close>.
\<close>

definition emitted :: "(string \<Rightarrow> string) \<Rightarrow> real \<Rightarrow> ArbitrageOpportunity \<Rightarrow> bool" where
  "emitted times1000 minRoi x =
     (\<exists>a b. platform a \<noteq> platform b \<and>
            60 \<le> score (calculateSimilarity times1000 a b) \<and>
            matchScore x = score (calculateSimilarity times1000 a b) \<and>
            matchReason x = reason (calculateSimilarity times1000 a b) \<and>
            ((marketA x = a \<and> marketB x = b) \<or> (marketA x = b \<and> marketB x = a)) \<and>
            combinedYesCost x = yesPrice (marketA x) + noPrice (marketB x) \<and>
            combinedYesCost x < 1 \<and>
            potentialProfit x = 1 - combinedYesCost x \<and>
            roi x = roi_percent (potentialProfit x) (combinedYesCost x) \<and>
            js_ge (roi x) minRoi)"

text \<open>
  A listing with the given id, venue, title, yes price and no price, of volume 0 and
  without the optional fields; used to write concrete inputs.
\<close>

definition listing ::
  "string \<Rightarrow> platform_name \<Rightarrow> string \<Rightarrow> real \<Rightarrow> real \<Rightarrow> StandardizedMarket" where
  "listing i p t y n =
     \<lparr> market_id = i, platform = p, title = t, category = None, yesPrice = y, noPrice = n,
       volume = 0, lastUpdated = [], isBinary = None, outcomes = None, marketUrl = None \<rparr>"

text \<open>
  An instance of the open argument of \<open>extractEntities\<close>, used to run the functions on
  concrete titles. It is what the source computes for a token of up to fifteen digits that
  does not start with 0 (\<open>100\<close> gives \<open>100000\<close>); none of the concrete titles below
  contains a number token that ends in \<open>k\<close>, so it is never applied there.
\<close>

definition times1000_digits :: "string \<Rightarrow> string" where
  "times1000_digits s = s @ ''000''"

text \<open>
  The seen-pairs discipline of the search: the pairs scored so far have pairwise different
  keys, and their keys are exactly the members of \<open>compared\<close>.
\<close>

definition keys_once :: "ScanState \<Rightarrow> bool" where
  "keys_once st =
     (distinct (map (\<lambda>(a, b). pairKey a b) (scored st)) \<and>
      set (map (\<lambda>(a, b). pairKey a b) (scored st)) = set (compared st))"

section \<open>Properties of the fee model and the ROI calculator\<close>

lemmas fee_eval =
  sentinel_calculatePlatformFee_def calculator_calculatePlatformFee_def toLowerCase_def lower_char_def



text \<open>One turn of the loop, in terms of \<open>affordable\<close>.\<close>

lemma contractsLoop_step:
  "0 < n \<Longrightarrow> contractsLoop pA a pB b iv mode n =
     (if affordable pA a pB b iv mode n then n else contractsLoop pA a pB b iv mode (n - 1))"
  by (subst contractsLoop.simps) (simp add: affordable_def Let_def mult.commute)

lemma contractsLoop_nonpos: "n \<le> 0 \<Longrightarrow> contractsLoop pA a pB b iv mode n = n"
  by (subst contractsLoop.simps) simp





text \<open>
  C3, as stated, fails: on Polymarket the fee of \<open>sentinel.tsx\<close> is
  \<open>0.0001 * price * contracts\<close>, that of \<open>arbitrage-calculator.tsx\<close> is 0.
\<close>

theorem fee_models_differ_on_polymarket:
  "sentinel_calculatePlatformFee ''Polymarket'' 0.5 10 Taker \<noteq>
   calculator_calculatePlatformFee ''Polymarket'' 0.5 10 Taker"
  by (simp add: fee_eval)

text \<open>
  C3, amended. For every venue name other than Polymarket whose lower-cased form is
  \<open>ibkr\<close> or \<open>ibkr forecast\<close> or contains neither \<open>ibkr\<close> nor \<open>forecastex\<close>, the two fee
  functions return the same amount for every price, contract count and order type, and
  that amount follows the per-venue rules: \<open>0.07 * price * (1 - price) * count\<close> on Kalshi
  for Taker orders and 0 for Maker orders, \<open>0.10 * (1 - price) * count\<close> on PredictIt and
  \<open>0.01 * count\<close> on IBKR whatever the order type, and 0 for an unknown name. On Polymarket
  the fee of \<open>arbitrage-calculator.tsx\<close> is 0 and that of \<open>sentinel.tsx\<close> is
  \<open>0.0001 * price * count\<close>.
\<close>

theorem fee_models_agree:
  assumes "toLowerCase pname \<noteq> ''polymarket''"
      and "toLowerCase pname \<in> {''ibkr'', ''ibkr forecast''} \<or>
           \<not> (str_includes (toLowerCase pname) ''ibkr'' \<or>
              str_includes (toLowerCase pname) ''forecastex'')"
      and "toLowerCase venue = ''polymarket''"
  shows "sentinel_calculatePlatformFee pname price contracts mode =
           calculator_calculatePlatformFee pname price contracts mode \<and>
         calculator_calculatePlatformFee pname price contracts mode =
           (if toLowerCase pname = ''kalshi'' then
              (if mode = Taker then 0.07 * price * (1 - price) * contracts else 0)
            else if toLowerCase pname = ''predictit'' then 0.10 * (1 - price) * contracts
            else if toLowerCase pname \<in> {''ibkr'', ''ibkr forecast''} then 0.01 * contracts
            else 0) \<and>
         calculator_calculatePlatformFee venue price contracts mode = 0 \<and>
         sentinel_calculatePlatformFee venue price contracts mode = 0.0001 * price * contracts"
proof -
  have ib: "str_includes ''ibkr'' ''ibkr''" "str_includes ''ibkr forecast'' ''ibkr''" by simp_all
  have k: "\<not> str_includes ''kalshi'' ''ibkr''" "\<not> str_includes ''kalshi'' ''forecastex''"
          "\<not> str_includes ''predictit'' ''ibkr''" "\<not> str_includes ''predictit'' ''forecastex''"
    by simp_all
  show ?thesis using assms ib k
    by (cases mode)
       (auto simp: sentinel_calculatePlatformFee_def calculator_calculatePlatformFee_def Let_def)
qed

theorem fee_models_agree_witness:
  "toLowerCase ''IBKR Forecast'' \<noteq> ''polymarket'' \<and>
   toLowerCase ''IBKR Forecast'' \<in> {''ibkr'', ''ibkr forecast''} \<and>
   toLowerCase ''Polymarket'' = ''polymarket'' \<and>
   sentinel_calculatePlatformFee ''IBKR Forecast'' 0.5 10 Taker = 0.1 \<and>
   calculator_calculatePlatformFee ''IBKR Forecast'' 0.5 10 Taker = 0.1 \<and>
   calculator_calculatePlatformFee ''Polymarket'' 0.5 10 Taker = 0 \<and>
   sentinel_calculatePlatformFee ''Polymarket'' 0.5 10 Taker = 0.0005"
proof -
  have l: "toLowerCase ''IBKR Forecast'' = ''ibkr forecast''"
          "toLowerCase ''Polymarket'' = ''polymarket''"
    by (simp_all add: toLowerCase_def lower_char_def)
  have h1: "toLowerCase ''IBKR Forecast'' \<noteq> ''polymarket''" by (simp add: l)
  have h2: "toLowerCase ''IBKR Forecast'' \<in> {''ibkr'', ''ibkr forecast''} \<or>
      \<not> (str_includes (toLowerCase ''IBKR Forecast'') ''ibkr'' \<or>
         str_includes (toLowerCase ''IBKR Forecast'') ''forecastex'')"
    by (simp add: l)
  from fee_models_agree[OF h1 h2 l(2), of "0.5" 10 Taker] show ?thesis
    using h1 l by simp
qed

text \<open>
  C4, as stated, fails: on PredictIt the fee under Maker is not 0, in either file, and
  \<open>calculateScenarioRoi\<close> with Maker then differs from the computation without fees.
\<close>

theorem maker_fee_not_zero:
  "sentinel_calculatePlatformFee ''PredictIt'' 0.5 10 Maker \<noteq> 0 \<and>
   calculator_calculatePlatformFee ''PredictIt'' 0.5 10 Maker \<noteq> 0 \<and>
   calculateScenarioRoi ''PredictIt'' 0.4 ''Kalshi'' 0.5 100 Maker \<noteq> grossScenarioRoi 0.4 0.5 100"
proof -
  have f: "\<lfloor>(100::real) / (0.4 + 0.5)\<rfloor> = 111" by simp
  have l: "contractsLoop ''PredictIt'' 0.4 ''Kalshi'' 0.5 100 Maker 111 = 104"
    by (simp add: contractsLoop_step affordable_def fee_eval)
  have a: "calculateScenarioRoi ''PredictIt'' 0.4 ''Kalshi'' 0.5 100 Maker = Some (25/6)"
    using l by (simp add: calculateScenarioRoi_def Let_def f fee_eval)
  have b: "grossScenarioRoi 0.4 0.5 100 = Some (100/9)"
    by (simp add: grossScenarioRoi_def Let_def f)
  show ?thesis unfolding a b by (simp add: fee_eval)
qed

text \<open>Without fees the loop stops where it starts.\<close>

lemma contractsLoop_free:
  assumes "\<And>n. sentinel_calculatePlatformFee pA a n mode = 0"
      and "\<And>n. sentinel_calculatePlatformFee pB b n mode = 0"
      and "0 < iv" "a + b \<noteq> 0"
  shows "contractsLoop pA a pB b iv mode \<lfloor>iv / (a + b)\<rfloor> = \<lfloor>iv / (a + b)\<rfloor>"
proof (cases "0 < \<lfloor>iv / (a + b)\<rfloor>")
  case False
  then show ?thesis by (simp add: contractsLoop_nonpos)
next
  case True
  then have q: "0 < iv / (a + b)" by (simp add: zero_less_floor)
  with assms(3) have pos: "0 < a + b" by (simp add: zero_less_divide_iff)
  have "of_int \<lfloor>iv / (a + b)\<rfloor> * (a + b) \<le> iv"
    using of_int_floor_le[of "iv / (a + b)"] pos by (metis pos_le_divide_eq)
  then have "affordable pA a pB b iv mode \<lfloor>iv / (a + b)\<rfloor>"
    by (simp add: affordable_def assms(1,2))
  then show ?thesis using True by (simp add: contractsLoop_step)
qed

text \<open>
  C4, amended. For Kalshi and for every venue name outside the fee table of
  \<open>sentinel.tsx\<close> (any name but Polymarket, PredictIt, IBKR and IBKR Forecast, up to case)
  the fee under Maker is 0 for every price and contract count, and for a pair of such
  venues \<open>calculateScenarioRoi\<close> with order type Maker returns what the same computation
  returns with both fees identically zero.
\<close>

theorem maker_roi_is_gross:
  assumes "toLowerCase platformA \<notin> {''polymarket'', ''predictit'', ''ibkr'', ''ibkr forecast''}"
      and "toLowerCase platformB \<notin> {''polymarket'', ''predictit'', ''ibkr'', ''ibkr forecast''}"
  shows "sentinel_calculatePlatformFee platformA price contracts Maker = 0 \<and>
         sentinel_calculatePlatformFee platformB price contracts Maker = 0 \<and>
         calculateScenarioRoi platformA priceA platformB priceB investment Maker =
           grossScenarioRoi priceA priceB investment"
proof -
  have fa: "\<And>p n. sentinel_calculatePlatformFee platformA p n Maker = 0"
    using assms(1) by (simp add: sentinel_calculatePlatformFee_def Let_def)
  have fb: "\<And>p n. sentinel_calculatePlatformFee platformB p n Maker = 0"
    using assms(2) by (simp add: sentinel_calculatePlatformFee_def Let_def)
  have "calculateScenarioRoi platformA priceA platformB priceB investment Maker =
           grossScenarioRoi priceA priceB investment"
  proof (cases "priceA + priceB \<ge> 1 \<or> investment \<le> 0 \<or> priceA + priceB = 0")
    case True
    then show ?thesis by (auto simp: calculateScenarioRoi_def grossScenarioRoi_def Let_def)
  next
    case False
    define s where "s = \<lfloor>investment / (priceA + priceB)\<rfloor>"
    from False have l: "contractsLoop platformA priceA platformB priceB investment Maker s = s"
      unfolding s_def
      using contractsLoop_free[of platformA priceA Maker platformB priceB investment] fa fb by simp
    show ?thesis using False
      unfolding calculateScenarioRoi_def grossScenarioRoi_def Let_def s_def[symmetric]
      by (simp add: l fa fb)
  qed
  with fa fb show ?thesis by simp
qed

theorem maker_roi_is_gross_witness:
  "toLowerCase ''Kalshi'' \<notin> {''polymarket'', ''predictit'', ''ibkr'', ''ibkr forecast''} \<and>
   toLowerCase ''Manifold'' \<notin> {''polymarket'', ''predictit'', ''ibkr'', ''ibkr forecast''} \<and>
   sentinel_calculatePlatformFee ''Kalshi'' 0.4 111 Maker = 0 \<and>
   sentinel_calculatePlatformFee ''Manifold'' 0.4 111 Maker = 0 \<and>
   calculateScenarioRoi ''Kalshi'' 0.4 ''Manifold'' 0.5 100 Maker = Some (100 / 9) \<and>
   grossScenarioRoi 0.4 0.5 100 = Some (100 / 9)"
proof -
  have h: "toLowerCase ''Kalshi'' \<notin> {''polymarket'', ''predictit'', ''ibkr'', ''ibkr forecast''}"
          "toLowerCase ''Manifold'' \<notin> {''polymarket'', ''predictit'', ''ibkr'', ''ibkr forecast''}"
    by (simp_all add: toLowerCase_def lower_char_def)
  have f: "\<lfloor>(100::real) / (0.4 + 0.5)\<rfloor> = 111" by simp
  have b: "grossScenarioRoi 0.4 0.5 100 = Some (100/9)"
    by (simp add: grossScenarioRoi_def Let_def f)
  from maker_roi_is_gross[OF h, of "0.4" 111 "0.4" "0.5" 100] show ?thesis
    using h b by simp
qed

text \<open>
  C6, as stated, fails. With yes price 0.52 on A, yes price 0.56 on B, investment 100 and
  no fees, the loop stops at 104 contracts and 99.84 is invested, but the payout is the
  contract count, 104, so the net profit is 4.16 and not 0.16 (which is the part of the
  investment left unspent), and the ROI returned is not \<open>0.16 / 99.84 * 100\<close>.
\<close>

theorem bestRoi_example_not_spec_value:
  "calculateScenarioRoi ''Kalshi'' 0.52 ''Manifold'' (1 - 0.56) 100 Maker
     \<noteq> Some (0.16 / 99.84 * 100) \<and>
   map_option best_roi (calculateBestRoi ''Kalshi'' 0.52 ''Manifold'' 0.56 100 Maker)
     \<noteq> Some (0.16 / 99.84 * 100)"
proof -
  have fl: "\<lfloor>(100::real) / (0.52 + (1 - 0.56))\<rfloor> = 104" by simp
  have loop: "contractsLoop ''Kalshi'' 0.52 ''Manifold'' (1 - 0.56) 100 Maker 104 = 104"
    by (simp add: contractsLoop_step affordable_def fee_eval)
  have r1: "calculateScenarioRoi ''Kalshi'' 0.52 ''Manifold'' (1 - 0.56) 100 Maker = Some (25 / 6)"
    using loop unfolding calculateScenarioRoi_def Let_def fl by (simp add: fee_eval)
  have r2: "calculateScenarioRoi ''Kalshi'' (1 - 0.52) ''Manifold'' 0.56 100 Maker = Some 0"
    by (simp add: calculateScenarioRoi_def Let_def)
  have best: "map_option best_roi (calculateBestRoi ''Kalshi'' 0.52 ''Manifold'' 0.56 100 Maker)
           = Some (25 / 6)"
    using loop unfolding calculateBestRoi_def r1 r2 Let_def fl by (simp add: fee_eval)
  show ?thesis unfolding r1 best by simp
qed

text \<open>
  C6, amended. In exact arithmetic, for a pair of venues without fees, yes price 0.52 on
  A, yes price 0.56 on B (the no leg on B costs 0.44) and investment 100: the scenario that
  buys YES on A and NO on B has base cost 0.96, the loop stops at 104 contracts, the total
  invested is 99.84, the payout is 104, the net profit is 4.16, the ROI is
  \<open>4.16 / 99.84 * 100\<close>, about 4.17 percent, and \<open>calculateBestRoi\<close> reports this ROI, for
  scenario 1, with both fees 0.
\<close>

theorem bestRoi_example:
  assumes "\<And>price n. sentinel_calculatePlatformFee platformA price n mode = 0"
      and "\<And>price n. sentinel_calculatePlatformFee platformB price n mode = 0"
  shows "(0.52::real) + (1 - 0.56) = 0.96 \<and>
         contractsLoop platformA 0.52 platformB (1 - 0.56) 100 mode
           \<lfloor>(100::real) / (0.52 + (1 - 0.56))\<rfloor> = 104 \<and>
         (0.52 + (1 - 0.56)) * 104
           + sentinel_calculatePlatformFee platformA 0.52 104 mode
           + sentinel_calculatePlatformFee platformB (1 - 0.56) 104 mode = 99.84 \<and>
         104 - ((0.52 + (1 - 0.56)) * 104
           + sentinel_calculatePlatformFee platformA 0.52 104 mode
           + sentinel_calculatePlatformFee platformB (1 - 0.56) 104 mode) = 4.16 \<and>
         calculateScenarioRoi platformA 0.52 platformB (1 - 0.56) 100 mode
           = Some (4.16 / 99.84 * 100) \<and>
         (4.16::real) < 4.16 / 99.84 * 100 \<and> (4.16::real) / 99.84 * 100 < 4.17 \<and>
         calculateBestRoi platformA 0.52 platformB 0.56 100 mode
           = Some \<lparr> best_roi = 4.16 / 99.84 * 100, best_scenario = 1, best_feeA = 0, best_feeB = 0 \<rparr>"
proof -
  have fl: "\<lfloor>(100::real) / (0.52 + (1 - 0.56))\<rfloor> = 104" by simp
  have loop: "contractsLoop platformA 0.52 platformB (1 - 0.56) 100 mode
           \<lfloor>(100::real) / (0.52 + (1 - 0.56))\<rfloor> = 104"
    using contractsLoop_free[of platformA "0.52" mode platformB "1 - 0.56" 100] assms
    unfolding fl by simp
  have r1: "calculateScenarioRoi platformA 0.52 platformB (1 - 0.56) 100 mode
           = Some (4.16 / 99.84 * 100)"
    using loop unfolding calculateScenarioRoi_def Let_def fl by (simp add: assms)
  have r2: "calculateScenarioRoi platformA (1 - 0.52) platformB 0.56 100 mode = Some 0"
    by (simp add: calculateScenarioRoi_def Let_def)
  have best: "calculateBestRoi platformA 0.52 platformB 0.56 100 mode
           = Some \<lparr> best_roi = 4.16 / 99.84 * 100, best_scenario = 1, best_feeA = 0, best_feeB = 0 \<rparr>"
    using loop unfolding calculateBestRoi_def r1 r2 Let_def fl by (simp add: assms)
  show ?thesis using loop r1 best by (simp add: assms)
qed

theorem bestRoi_example_witness:
  "(\<forall>price n. sentinel_calculatePlatformFee ''Kalshi'' price n Maker = 0) \<and>
   (\<forall>price n. sentinel_calculatePlatformFee ''Manifold'' price n Maker = 0) \<and>
   contractsLoop ''Kalshi'' 0.52 ''Manifold'' (1 - 0.56) 100 Maker
      \<lfloor>(100::real) / (0.52 + (1 - 0.56))\<rfloor> = 104 \<and>
   calculateBestRoi ''Kalshi'' 0.52 ''Manifold'' 0.56 100 Maker
      = Some \<lparr> best_roi = 4.16 / 99.84 * 100, best_scenario = 1, best_feeA = 0, best_feeB = 0 \<rparr>"
proof -
  have a: "\<And>price n. sentinel_calculatePlatformFee ''Kalshi'' price n Maker = 0"
    by (simp add: fee_eval)
  have b: "\<And>price n. sentinel_calculatePlatformFee ''Manifold'' price n Maker = 0"
    by (simp add: fee_eval)
  from bestRoi_example[of "''Kalshi''" Maker "''Manifold''", OF a b] show ?thesis
    using a b by blast
qed

text \<open>
  C7. If the pre-fee cost \<open>priceA + priceB\<close> is at least 1, or the investment is at most 0,
  \<open>calculateScenarioRoi\<close> returns the ROI 0, for every venue pair, order type and
  every other argument.
\<close>

theorem calculateScenarioRoi_zero:
  "priceA + priceB \<ge> 1 \<or> investment \<le> 0 \<Longrightarrow>
   calculateScenarioRoi platformA priceA platformB priceB investment mode = Some 0"
  by (auto simp: calculateScenarioRoi_def Let_def)

theorem calculateScenarioRoi_zero_witness:
  "((0.6::real) + 0.5 \<ge> 1 \<or> (100::real) \<le> 0) \<and>
   calculateScenarioRoi ''Kalshi'' 0.6 ''PredictIt'' 0.5 100 Taker = Some 0"
  using calculateScenarioRoi_zero [of "0.6" "0.5" 100 "''Kalshi''" "''PredictIt''" Taker]
  by simp

section \<open>Properties of the similarity scorer and the opportunity search\<close>

text \<open>Every opportunity that one turn of the inner loop adds is of the recorded form.\<close>

lemma compare_pair_opportunities:
  assumes "x \<in> set (opportunities (compare_pair k minRoi ab st))"
  shows "x \<in> set (opportunities st) \<or> emitted k minRoi x"
proof (cases "x \<in> set (opportunities st)")
  case True
  then show ?thesis by simp
next
  case False
  obtain a b where ab: "ab = (a, b)" by (cases ab)
  have "emitted k minRoi x"
    unfolding emitted_def
    apply (rule exI[of _ a], rule exI[of _ b])
    using assms False unfolding ab compare_pair_def Let_def push_opportunity_def minSimilarity_def
    by (auto simp: add.commute split: if_splits)
  then show ?thesis by simp
qed

lemma fold_opportunities:
  assumes step: "\<And>y st x. x \<in> set (opportunities (f y st)) \<Longrightarrow> x \<in> set (opportunities st) \<or> Q x"
      and "x \<in> set (opportunities (fold f ys st))"
  shows "x \<in> set (opportunities st) \<or> Q x"
  using assms(2)
proof (induction ys arbitrary: st)
  case Nil
  then show ?case by simp
next
  case (Cons y ys)
  from Cons.prems have "x \<in> set (opportunities (fold f ys (f y st)))" by simp
  then have "x \<in> set (opportunities (f y st)) \<or> Q x" by (rule Cons.IH)
  then show ?case using step by blast
qed

lemma scan_bucket_opportunities:
  assumes "x \<in> set (opportunities (scan_bucket k minRoi ms st))"
  shows "x \<in> set (opportunities st) \<or> emitted k minRoi x"
proof (cases "length (new_Set (map platform ms)) < 2")
  case True
  with assms show ?thesis by (simp add: scan_bucket_def)
next
  case False
  with assms have "x \<in> set (opportunities (fold (compare_pair k minRoi)
      (index_pairs (take MAX_BUCKET_SIZE (sort_key (\<lambda>m. - volume m) ms))) st))"
    by (simp add: scan_bucket_def Let_def)
  then show ?thesis
    by (rule fold_opportunities[rotated]) (rule compare_pair_opportunities)
qed

lemma scan_markets_opportunities:
  assumes "x \<in> set (opportunities (scan_markets k markets minRoi))"
  shows "emitted k minRoi x"
proof -
  have "x \<in> set (opportunities \<lparr> compared = [], scored = [], opportunities = [] \<rparr>)
          \<or> emitted k minRoi x"
    using assms unfolding scan_markets_def
    by (rule fold_opportunities[rotated]) (auto dest: scan_bucket_opportunities)
  then show ?thesis by simp
qed

text \<open>The final sort rearranges the list.\<close>

lemma set_insert_opportunity: "set (insert_opportunity x ys) = insert x (set ys)"
  by (induction ys) auto

lemma set_fold_insert_opportunity: "set (fold insert_opportunity xs acc) = set xs \<union> set acc"
  by (induction xs arbitrary: acc) (auto simp: set_insert_opportunity)

lemma set_sort_opportunities: "set (sort_opportunities xs) = set xs"
  by (simp add: sort_opportunities_def set_fold_insert_opportunity)

lemma findArbitrageOpportunities_emitted:
  "x \<in> set (findArbitrageOpportunities k markets minRoi) \<Longrightarrow> emitted k minRoi x"
  by (simp add: findArbitrageOpportunities_def set_sort_opportunities scan_markets_opportunities)

text \<open>
  C5. Every opportunity in the output of \<open>findArbitrageOpportunities\<close> has its two markets
  on different venues, a match score that is not zero and is at least 60, a combined
  pre-fee cost below 1, and an ROI of at least \<open>minRoi\<close>.
\<close>

theorem opportunity_invariants:
  "\<forall>x \<in> set (findArbitrageOpportunities times1000 markets minRoi).
     platform (marketA x) \<noteq> platform (marketB x) \<and>
     matchScore x \<noteq> 0 \<and> 60 \<le> matchScore x \<and>
     combinedYesCost x < 1 \<and>
     js_ge (roi x) minRoi"
proof
  fix x assume "x \<in> set (findArbitrageOpportunities times1000 markets minRoi)"
  then have "emitted times1000 minRoi x" by (rule findArbitrageOpportunities_emitted)
  then show "platform (marketA x) \<noteq> platform (marketB x) \<and>
     matchScore x \<noteq> 0 \<and> 60 \<le> matchScore x \<and> combinedYesCost x < 1 \<and> js_ge (roi x) minRoi"
    unfolding emitted_def by auto
qed

theorem opportunity_invariants_witness:
  "\<exists>x. findArbitrageOpportunities times1000_digits
          [listing ''K1'' Kalshi ''Fed Rate Cut in 2025'' 0.4 0.6,
           listing ''P1'' Polymarket ''Will the Fed cut rates in 2025?'' 0.5 0.5] 0 = [x] \<and>
        platform (marketA x) \<noteq> platform (marketB x) \<and>
        matchScore x \<noteq> 0 \<and> 60 \<le> matchScore x \<and>
        combinedYesCost x < 1 \<and>
        js_ge (roi x) 0"
proof -
  let ?ms = "[listing ''K1'' Kalshi ''Fed Rate Cut in 2025'' 0.4 0.6,
              listing ''P1'' Polymarket ''Will the Fed cut rates in 2025?'' 0.5 0.5]"
  let ?x = "\<lparr> marketA = listing ''K1'' Kalshi ''Fed Rate Cut in 2025'' 0.4 0.6,
              marketB = listing ''P1'' Polymarket ''Will the Fed cut rates in 2025?'' 0.5 0.5,
              combinedYesCost = 0.9, potentialProfit = 0.1, roi = Num (100 / 9),
              matchScore = 95, matchReason = ''fed-rate-cut'' \<rparr>"
  have run: "findArbitrageOpportunities times1000_digits ?ms 0 = [?x]"
    by code_simp
  then have mem: "?x \<in> set (findArbitrageOpportunities times1000_digits ?ms 0)" by simp
  from opportunity_invariants[of times1000_digits ?ms 0] mem
  have "platform (marketA ?x) \<noteq> platform (marketB ?x) \<and>
        matchScore ?x \<noteq> 0 \<and> 60 \<le> matchScore ?x \<and> combinedYesCost ?x < 1 \<and> js_ge (roi ?x) 0"
    by (rule bspec)
  with run show ?thesis by blast
qed

text \<open>
  C10. Every opportunity in the output of \<open>findArbitrageOpportunities\<close>, in either
  orientation, has \<open>combinedYesCost = marketA.yesPrice + marketB.noPrice\<close>,
  \<open>potentialProfit = 1 - combinedYesCost\<close> and \<open>roi = (potentialProfit / combinedYesCost) * 100\<close>
  (which is \<open>Infinity\<close> when the combined cost is zero).
\<close>

theorem opportunity_coherent:
  "\<forall>x \<in> set (findArbitrageOpportunities times1000 markets minRoi).
     combinedYesCost x = yesPrice (marketA x) + noPrice (marketB x) \<and>
     potentialProfit x = 1 - combinedYesCost x \<and>
     roi x = (if combinedYesCost x = 0 then PlusInfinity
              else Num ((potentialProfit x / combinedYesCost x) * 100))"
proof
  fix x assume "x \<in> set (findArbitrageOpportunities times1000 markets minRoi)"
  then have "emitted times1000 minRoi x" by (rule findArbitrageOpportunities_emitted)
  then show "combinedYesCost x = yesPrice (marketA x) + noPrice (marketB x) \<and>
     potentialProfit x = 1 - combinedYesCost x \<and>
     roi x = (if combinedYesCost x = 0 then PlusInfinity
              else Num ((potentialProfit x / combinedYesCost x) * 100))"
    unfolding emitted_def roi_percent_def by auto
qed

theorem opportunity_coherent_witness:
  "\<exists>x. findArbitrageOpportunities times1000_digits
          [listing ''K1'' Kalshi ''Fed Rate Cut in 2025'' 0.6 0.4,
           listing ''P1'' Polymarket ''Will the Fed cut rates in 2025?'' 0.3 0.7] 0 = [x] \<and>
        market_id (marketA x) = ''P1'' \<and> market_id (marketB x) = ''K1'' \<and>
        combinedYesCost x = yesPrice (marketA x) + noPrice (marketB x) \<and>
        combinedYesCost x = 0.7 \<and>
        potentialProfit x = 1 - combinedYesCost x \<and>
        roi x = Num ((potentialProfit x / combinedYesCost x) * 100)"
proof -
  let ?ms = "[listing ''K1'' Kalshi ''Fed Rate Cut in 2025'' 0.6 0.4,
              listing ''P1'' Polymarket ''Will the Fed cut rates in 2025?'' 0.3 0.7]"
  let ?x = "\<lparr> marketA = listing ''P1'' Polymarket ''Will the Fed cut rates in 2025?'' 0.3 0.7,
              marketB = listing ''K1'' Kalshi ''Fed Rate Cut in 2025'' 0.6 0.4,
              combinedYesCost = 0.7, potentialProfit = 0.3, roi = Num (300 / 7),
              matchScore = 95, matchReason = ''fed-rate-cut'' \<rparr>"
  have run: "findArbitrageOpportunities times1000_digits ?ms 0 = [?x]"
    by code_simp
  then have mem: "?x \<in> set (findArbitrageOpportunities times1000_digits ?ms 0)" by simp
  from opportunity_coherent[of times1000_digits ?ms 0] mem
  have "combinedYesCost ?x = yesPrice (marketA ?x) + noPrice (marketB ?x) \<and>
        potentialProfit ?x = 1 - combinedYesCost ?x \<and>
        roi ?x = (if combinedYesCost ?x = 0 then PlusInfinity
                  else Num ((potentialProfit ?x / combinedYesCost ?x) * 100))"
    by (rule bspec)
  then have "combinedYesCost ?x = yesPrice (marketA ?x) + noPrice (marketB ?x) \<and>
        potentialProfit ?x = 1 - combinedYesCost ?x \<and>
        roi ?x = Num ((potentialProfit ?x / combinedYesCost ?x) * 100)"
    by simp
  moreover have "market_id (marketA ?x) = ''P1'' \<and> market_id (marketB ?x) = ''K1'' \<and>
        combinedYesCost ?x = 0.7"
    by (simp add: listing_def)
  ultimately show ?thesis using run by blast
qed

text \<open>Two fields of the entity bag, read off the definition.\<close>

lemma years_extractEntities:
  "years (extractEntities k t) = new_Set (rx_match_all year_rx (toLowerCase t))"
  by (simp add: extractEntities_def Let_def)

lemma party_extractEntities:
  "party (extractEntities k t) =
     (if rx_test republican_rx (toLowerCase t) then Some ''republican''
      else if rx_test democrat_rx (toLowerCase t) then Some ''democrat'' else None)"
  by (simp add: extractEntities_def Let_def)

text \<open>
  Without a shared event label, two titles whose year sets are not empty and have no
  year in common score 0: every path through the scorer either returns 0 before the
  year check or reaches it.
\<close>

lemma year_conflict_zero:
  assumes "set (extractEvents (title a)) \<inter> set (extractEvents (title b)) = {}"
      and "years (extractEntities k (title a)) \<noteq> []"
      and "years (extractEntities k (title b)) \<noteq> []"
      and "set (years (extractEntities k (title a))) \<inter> set (years (extractEntities k (title b))) = {}"
  shows "score (calculateSimilarity k a b) = 0"
proof -
  have f: "find (\<lambda>ea. ea \<in> set (extractEvents (title b))) (extractEvents (title a)) = None"
    using assms(1) by (auto simp: find_None_iff)
  have y: "\<not> list_ex (\<lambda>y. y \<in> set (years (extractEntities k (title b))))
                     (years (extractEntities k (title a)))"
    using assms(4) by (auto simp: list_ex_iff)
  show ?thesis
    unfolding calculateSimilarity_def Let_def f using assms(2,3) y
    by simp
qed

text \<open>
  C1, as stated, fails: two titles that differ only in the year, 2025 against 2026, and
  both match the event pattern \<open>fed-rate-cut\<close> score 95, and, sharing the bucket \<open>trump\<close>,
  give an opportunity.
\<close>

theorem year_only_difference_matched:
  "score (calculateSimilarity times1000_digits
      (listing ''K1'' Kalshi ''Trump Fed rate cut in 2025'' 0.4 0.6)
      (listing ''P1'' Polymarket ''Trump Fed rate cut in 2026'' 0.5 0.5)) = 95 \<and>
   map (\<lambda>x. (market_id (marketA x), market_id (marketB x), matchScore x))
     (findArbitrageOpportunities times1000_digits
        [listing ''K1'' Kalshi ''Trump Fed rate cut in 2025'' 0.4 0.6,
         listing ''P1'' Polymarket ''Trump Fed rate cut in 2026'' 0.5 0.5] 0)
     = [(''K1'', ''P1'', 95)]"
proof -
  have s: "score (calculateSimilarity times1000_digits
      (listing ''K1'' Kalshi ''Trump Fed rate cut in 2025'' 0.4 0.6)
      (listing ''P1'' Polymarket ''Trump Fed rate cut in 2026'' 0.5 0.5)) = 95"
    by code_simp
  have r: "map (\<lambda>x. (market_id (marketA x), market_id (marketB x), matchScore x))
     (findArbitrageOpportunities times1000_digits
        [listing ''K1'' Kalshi ''Trump Fed rate cut in 2025'' 0.4 0.6,
         listing ''P1'' Polymarket ''Trump Fed rate cut in 2026'' 0.5 0.5] 0)
     = [(''K1'', ''P1'', 95)]"
    by code_simp
  from s r show ?thesis by (rule conjI)
qed

text \<open>
  C1, amended. For every pair of listings whose titles share no event label and whose
  extracted year sets are both non-empty and have no year in common (as when the titles
  differ only in a year between 2024 and 2039), the similarity score is 0, in either
  argument order, and no opportunity for the pair, in either orientation, is in the
  output of \<open>findArbitrageOpportunities\<close>, whatever the listings, prices and \<open>minRoi\<close>.
\<close>

theorem year_conflict_not_matched:
  assumes "set (extractEvents (title a)) \<inter> set (extractEvents (title b)) = {}"
      and "years (extractEntities times1000 (title a)) \<noteq> []"
      and "years (extractEntities times1000 (title b)) \<noteq> []"
      and "set (years (extractEntities times1000 (title a)))
             \<inter> set (years (extractEntities times1000 (title b))) = {}"
  shows "score (calculateSimilarity times1000 a b) = 0 \<and>
         score (calculateSimilarity times1000 b a) = 0 \<and>
         (\<forall>x \<in> set (findArbitrageOpportunities times1000 markets minRoi).
            \<not> ((marketA x = a \<and> marketB x = b) \<or> (marketA x = b \<and> marketB x = a)))"
proof -
  have ab: "score (calculateSimilarity times1000 a b) = 0"
    using assms by (rule year_conflict_zero)
  have ba: "score (calculateSimilarity times1000 b a) = 0"
    using assms by (intro year_conflict_zero) auto
  have "\<not> ((marketA x = a \<and> marketB x = b) \<or> (marketA x = b \<and> marketB x = a))"
    if "x \<in> set (findArbitrageOpportunities times1000 markets minRoi)" for x
  proof -
    from that have "emitted times1000 minRoi x" by (rule findArbitrageOpportunities_emitted)
    then obtain p q where pq: "60 \<le> score (calculateSimilarity times1000 p q)"
        "(marketA x = p \<and> marketB x = q) \<or> (marketA x = q \<and> marketB x = p)"
      unfolding emitted_def by blast
    show ?thesis
    proof
      assume "(marketA x = a \<and> marketB x = b) \<or> (marketA x = b \<and> marketB x = a)"
      with pq(2) have "(p = a \<and> q = b) \<or> (p = b \<and> q = a)" by auto
      with pq(1) ab ba show False by auto
    qed
  qed
  with ab ba show ?thesis by blast
qed

theorem year_conflict_not_matched_witness:
  "set (extractEvents ''Trump impeached in 2025'') \<inter> set (extractEvents ''Trump impeached in 2026'') = {} \<and>
   years (extractEntities times1000_digits ''Trump impeached in 2025'') = [''2025''] \<and>
   years (extractEntities times1000_digits ''Trump impeached in 2026'') = [''2026''] \<and>
   score (calculateSimilarity times1000_digits
      (listing ''K1'' Kalshi ''Trump impeached in 2025'' 0.4 0.6)
      (listing ''P1'' Polymarket ''Trump impeached in 2026'' 0.5 0.5)) = 0 \<and>
   \<not> (\<exists>x \<in> set (findArbitrageOpportunities times1000_digits
                   [listing ''K1'' Kalshi ''Trump impeached in 2025'' 0.4 0.6,
                    listing ''P1'' Polymarket ''Trump impeached in 2026'' 0.5 0.5] 0).
         marketA x = listing ''K1'' Kalshi ''Trump impeached in 2025'' 0.4 0.6 \<and>
         marketB x = listing ''P1'' Polymarket ''Trump impeached in 2026'' 0.5 0.5)"
proof -
  let ?a = "listing ''K1'' Kalshi ''Trump impeached in 2025'' 0.4 0.6"
  let ?b = "listing ''P1'' Polymarket ''Trump impeached in 2026'' 0.5 0.5"
  have ta: "title ?a = ''Trump impeached in 2025''" and tb: "title ?b = ''Trump impeached in 2026''"
    by (simp_all add: listing_def)
  have e1: "extractEvents ''Trump impeached in 2025'' = []" by code_simp
  have y1: "years (extractEntities times1000_digits ''Trump impeached in 2025'') = [''2025'']"
    unfolding years_extractEntities by code_simp
  have y2: "years (extractEntities times1000_digits ''Trump impeached in 2026'') = [''2026'']"
    unfolding years_extractEntities by code_simp
  have h1: "set (extractEvents (title ?a)) \<inter> set (extractEvents (title ?b)) = {}"
    unfolding ta tb e1 by simp
  have h2: "years (extractEntities times1000_digits (title ?a)) \<noteq> []"
    unfolding ta y1 by simp
  have h3: "years (extractEntities times1000_digits (title ?b)) \<noteq> []"
    unfolding tb y2 by simp
  have h4: "set (years (extractEntities times1000_digits (title ?a)))
             \<inter> set (years (extractEntities times1000_digits (title ?b))) = {}"
    unfolding ta tb y1 y2 by simp
  from year_conflict_not_matched[OF h1 h2 h3 h4, of "[?a, ?b]" 0]
  have "score (calculateSimilarity times1000_digits ?a ?b) = 0 \<and>
        \<not> (\<exists>x \<in> set (findArbitrageOpportunities times1000_digits [?a, ?b] 0).
              marketA x = ?a \<and> marketB x = ?b)"
    by blast
  moreover have "set (extractEvents ''Trump impeached in 2025'')
                   \<inter> set (extractEvents ''Trump impeached in 2026'') = {}"
    unfolding e1 by simp
  ultimately show ?thesis using y1 y2 by blast
qed

text \<open>
  C8. The claim holds of the intended party pattern, not of the code: the alternative
  \<open>r\b\<close> of \<open>/republican|gop|rnc|r\b/i\<close> has no word boundary in front, so it matches the
  last letter of any word that ends in \<open>r\<close>, and \<open>d\b\<close> likewise matches any word that ends
  in \<open>d\<close>. A title without any party term is tagged \<open>republican\<close> or \<open>democrat\<close>.
\<close>

theorem party_of_title_without_party_term:
  "party (extractEntities times1000 ''Who will be the next governor?'') = Some ''republican'' \<and>
   party (extractEntities times1000 ''Will the Fed cut rates?'') = Some ''democrat''"
proof -
  have r: "rx_test republican_rx (toLowerCase ''Who will be the next governor?'')"
    by code_simp
  have nr: "\<not> rx_test republican_rx (toLowerCase ''Will the Fed cut rates?'')"
    by code_simp
  have d: "rx_test democrat_rx (toLowerCase ''Will the Fed cut rates?'')"
    by code_simp
  show ?thesis unfolding party_extractEntities using r nr d by simp
qed

text \<open>
  The key of a pair does not depend on the order of the two listings, and no key is
  scored twice in a run.
\<close>

lemma str_less_asym: "str_less a b \<Longrightarrow> \<not> str_less b a"
  by (induction a b rule: str_less.induct) (auto split: if_splits)

lemma of_char_nat_neq:
  "x \<noteq> y \<Longrightarrow> (of_char x :: nat) < of_char y \<or> (of_char y :: nat) < of_char x"
  by (metis of_char_eq_iff linorder_neqE_nat)

lemma str_less_total: "a \<noteq> b \<Longrightarrow> str_less a b \<or> str_less b a"
proof (induction a b rule: str_less.induct)
  case (1 s)
  then show ?case by (cases s) auto
next
  case (2 y ys)
  then show ?case by simp
next
  case (3 x xs y ys)
  then show ?case using of_char_nat_neq[of x y] by (auto split: if_splits)
qed

lemma pairKey_commute: "pairKey a b = pairKey b a"
proof (cases "market_id a = market_id b")
  case True
  then show ?thesis by (simp add: pairKey_def)
next
  case False
  then show ?thesis
    using str_less_total[of "market_id a" "market_id b"]
          str_less_asym[of "market_id a" "market_id b"] str_less_asym[of "market_id b" "market_id a"]
    by (auto simp: pairKey_def)
qed

lemma compare_pair_scored:
  "scored (compare_pair k minRoi ab st) =
     (if platform (fst ab) \<noteq> platform (snd ab) \<and> pairKey (fst ab) (snd ab) \<notin> set (compared st)
      then scored st @ [ab] else scored st)"
  by (cases ab) (simp add: compare_pair_def Let_def push_opportunity_def)

lemma compare_pair_compared:
  "compared (compare_pair k minRoi ab st) =
     (if platform (fst ab) \<noteq> platform (snd ab) \<and> pairKey (fst ab) (snd ab) \<notin> set (compared st)
      then compared st @ [pairKey (fst ab) (snd ab)] else compared st)"
  by (cases ab) (simp add: compare_pair_def Let_def push_opportunity_def set_add_def)

lemma compare_pair_keys_once: "keys_once st \<Longrightarrow> keys_once (compare_pair k minRoi ab st)"
  by (cases ab) (auto simp: keys_once_def compare_pair_scored compare_pair_compared)

lemma fold_invariant:
  assumes "\<And>y st. P st \<Longrightarrow> P (f y st)" and "P st"
  shows "P (fold f ys st)"
  using assms(2) by (induction ys arbitrary: st) (auto intro: assms(1))

lemma scan_bucket_keys_once: "keys_once st \<Longrightarrow> keys_once (scan_bucket k minRoi ms st)"
  unfolding scan_bucket_def Let_def
  by (auto intro!: fold_invariant compare_pair_keys_once)

lemma scan_markets_keys_once: "keys_once (scan_markets k markets minRoi)"
  unfolding scan_markets_def
proof (rule fold_invariant)
  show "keys_once \<lparr> compared = [], scored = [], opportunities = [] \<rparr>"
    by (simp add: keys_once_def)
next
  fix y :: "string \<times> StandardizedMarket list" and st
  assume "keys_once st"
  then show "keys_once ((\<lambda>(keyword, matchingMarkets) st. scan_bucket k minRoi matchingMarkets st) y st)"
    by (cases y) (simp add: scan_bucket_keys_once)
qed

text \<open>
  C9. The claim holds of the intended key, not of the code: the key
  \<open>[a.id, b.id].sort().join('-')\<close> does not determine the pair when an id contains \<open>-\<close>,
  as the ids of PredictIt listings do. Four listings share the bucket \<open>trump\<close>; the pair
  of the listings \<open>12\<close> and \<open>3-45\<close>, of two venues, has the key \<open>12-3-45\<close> of the pair
  \<open>12-3\<close> and \<open>45\<close> scored before it, and is never scored.
\<close>

theorem pair_key_collision:
  "pairKey (listing ''12'' Polymarket ''Trump tariffs on China'' 0.3 0.7)
           (listing ''3-45'' PredictIt ''Trump tariffs on China'' 0.6 0.4)
     = pairKey (listing ''12-3'' PredictIt ''Trump tariffs on China'' 0.4 0.6)
               (listing ''45'' Polymarket ''Trump tariffs on China'' 0.5 0.5) \<and>
   map (\<lambda>(k, ms). (k, map market_id ms))
     (keywordIndex
        [listing ''12-3'' PredictIt ''Trump tariffs on China'' 0.4 0.6,
         listing ''45'' Polymarket ''Trump tariffs on China'' 0.5 0.5,
         listing ''12'' Polymarket ''Trump tariffs on China'' 0.3 0.7,
         listing ''3-45'' PredictIt ''Trump tariffs on China'' 0.6 0.4])
     = [(''trump'', [''12-3'', ''45'', ''12'', ''3-45''])] \<and>
   map (\<lambda>(a, b). (market_id a, market_id b))
     (scored (scan_markets times1000_digits
        [listing ''12-3'' PredictIt ''Trump tariffs on China'' 0.4 0.6,
         listing ''45'' Polymarket ''Trump tariffs on China'' 0.5 0.5,
         listing ''12'' Polymarket ''Trump tariffs on China'' 0.3 0.7,
         listing ''3-45'' PredictIt ''Trump tariffs on China'' 0.6 0.4] 0))
     = [(''12-3'', ''45''), (''12-3'', ''12''), (''45'', ''3-45'')]"
  by code_simp

end
